theory Spec2Isabelle
  imports Complex_Main
begin

section \<open>Domain model (app/domain)\<close>

text \<open>
  Python values are modelled as follows.
  \<^item> \<open>Decimal\<close> amounts are exact rationals (\<open>rat\<close>): comparison and addition of finite
    decimals are exact; \<open>NaN\<close>, the infinities and the context precision of 28 digits
    are outside the model.
  \<^item> \<open>str\<close> is \<open>string\<close>, one \<open>char\<close> per code point, so \<open>len\<close> is \<open>length\<close>.
  \<^item> A \<open>datetime\<close> is its wall-clock reading \<open>wall\<close> (microseconds) together with
    \<open>tzinfo\<close>: \<open>None\<close> for a naive value, \<open>Some off\<close> for an aware one with the fixed
    UTC offset \<open>off\<close> (microseconds). \<open>UTC\<close> is \<open>Some 0\<close>.
  \<^item> A raised exception is the \<open>Inl\<close> branch of a sum; the classes of
    \<open>app/domain/errors.py\<close> carry their message.
\<close>

datatype error =
    DomainValidationError string
  | NotFoundError string
  | ValueError string
  | TypeError string
  | IntegrityError string

datatype TransactionType = expense | income

record datetime =
  wall :: int
  tzinfo :: "int option"

record Money =
  amount :: rat
  currency :: string

record Transaction =
  id_tx :: string
  user_id :: string
  type_tx :: TransactionType
  money :: Money
  occurred_at :: datetime
  created_at :: datetime
  category_id :: "string option"
  account_id :: "string option"
  description :: "string option"

text \<open>\<open>TransactionType(s)\<close>: lookup of an enum member by value; \<open>.value\<close> is its inverse.\<close>

definition TransactionType_of :: "string \<Rightarrow> error + TransactionType" where
  "TransactionType_of s =
     (if s = ''expense'' then Inr expense
      else if s = ''income'' then Inr income
      else Inl (ValueError s))"

fun TransactionType_value :: "TransactionType \<Rightarrow> string" where
  "TransactionType_value expense = ''expense''"
| "TransactionType_value income = ''income''"

text \<open>\<open>Money(amount=a, currency=c)\<close>: the frozen dataclass with its \<open>__post_init__\<close>.\<close>

definition Money_new :: "rat \<Rightarrow> string \<Rightarrow> error + Money" where
  "Money_new a c =
     (if a \<le> 0 then Inl (DomainValidationError ''Amount must be greater than 0'')
      else if c = [] \<or> length c \<noteq> 3
        then Inl (DomainValidationError ''Currency must be a 3-letter code (e.g. RUB)'')
      else Inr \<lparr>amount = a, currency = c\<rparr>)"

text \<open>
  \<open>Transaction.create\<close>. The two values it reads from the environment are arguments:
  \<open>uuid\<close> is \<open>str(uuid4())\<close> and \<open>now\<close> is the wall-clock reading of
  \<open>datetime.now(tz=UTC)\<close>.
\<close>

definition UTC :: "int option" where
  "UTC = Some 0"

definition Transaction_create ::
  "string \<Rightarrow> int \<Rightarrow> string \<Rightarrow> TransactionType \<Rightarrow> Money \<Rightarrow> datetime \<Rightarrow>
   string option \<Rightarrow> string option \<Rightarrow> string option \<Rightarrow> error + Transaction" where
  "Transaction_create uuid now uid ty m occ cat acc descr =
     (if uid = [] then Inl (DomainValidationError ''user_id is required'')
      else if tzinfo occ = None
        then Inl (DomainValidationError ''occurred_at must be timezone-aware (e.g. UTC)'')
      else Inr \<lparr>id_tx = uuid, user_id = uid, type_tx = ty, money = m, occurred_at = occ,
                created_at = \<lparr>wall = now, tzinfo = UTC\<rparr>, category_id = cat,
                account_id = acc, description = descr\<rparr>)"

text \<open>
  Ordering of datetimes: two naive values compare by wall clock, two aware values by
  their instant (wall clock minus offset), and a naive with an aware one raises
  \<open>TypeError\<close>.
\<close>

definition datetime_gt :: "datetime \<Rightarrow> datetime \<Rightarrow> error + bool" where
  "datetime_gt a b =
     (case (tzinfo a, tzinfo b) of
        (None, None) \<Rightarrow> Inr (wall a > wall b)
      | (Some x, Some y) \<Rightarrow> Inr (wall a - x > wall b - y)
      | _ \<Rightarrow> Inl (TypeError ''can't compare offset-naive and offset-aware datetimes''))"

section \<open>Insertion-ordered dictionaries\<close>

text \<open>
  A Python \<open>dict\<close> keeps its keys in insertion order and the service returns the
  dictionaries it builds, so they are association lists: \<open>d[k] = v\<close> replaces the value
  of a present key where it stands and appends an absent key at the end.
\<close>

type_synonym ('k, 'v) dict = "('k \<times> 'v) list"

fun dict_get :: "('k, 'v) dict \<Rightarrow> 'k \<Rightarrow> 'v \<Rightarrow> 'v" where
  "dict_get [] k dflt = dflt"
| "dict_get ((k', v) # d) k dflt = (if k' = k then v else dict_get d k dflt)"

fun dict_set :: "('k, 'v) dict \<Rightarrow> 'k \<Rightarrow> 'v \<Rightarrow> ('k, 'v) dict" where
  "dict_set [] k v = [(k, v)]"
| "dict_set ((k', v') # d) k v = (if k' = k then (k, v) # d else (k', v') # dict_set d k v)"

definition dict_keys :: "('k, 'v) dict \<Rightarrow> 'k list" where
  "dict_keys d = map fst d"

text \<open>\<open>dict.fromkeys(xs)\<close> and the comprehension \<open>{k: v0 for k in xs}\<close>.\<close>

definition dict_fromkeys :: "'k list \<Rightarrow> 'v \<Rightarrow> ('k, 'v) dict" where
  "dict_fromkeys xs v0 = foldl (\<lambda>d k. dict_set d k v0) [] xs"

section \<open>The repository interface (app/domain/repositories.py)\<close>

text \<open>
  The abstract class \<open>TransactionRepository\<close> is a record of operations over a store
  state \<open>'s\<close>. Every operation receives the state and returns the new one with its
  result, so that a call to the store is visible in the state it returns, and may raise.
\<close>

record 's TransactionRepository =
  repo_add :: "Transaction \<Rightarrow> 's \<Rightarrow> (error + unit) \<times> 's"
  repo_get :: "string \<Rightarrow> 's \<Rightarrow> (error + Transaction option) \<times> 's"
  repo_list_by_user :: "string \<Rightarrow> 's \<Rightarrow> (error + Transaction list) \<times> 's"
  repo_list_by_user_and_categories ::
    "string \<Rightarrow> string list \<Rightarrow> 's \<Rightarrow> (error + Transaction list) \<times> 's"
  repo_list_by_user_and_period ::
    "string \<Rightarrow> datetime \<Rightarrow> datetime \<Rightarrow> 's \<Rightarrow> (error + Transaction list) \<times> 's"

text \<open>
  A repository that records every call made to it, in order, beside the state of the
  repository it wraps.
\<close>

datatype call =
    Add Transaction
  | Get string
  | ListByUser string
  | ListByUserAndCategories string "string list"
  | ListByUserAndPeriod string datetime datetime

definition traced_call ::
  "call \<Rightarrow> ('s \<Rightarrow> 'a \<times> 's) \<Rightarrow> 's \<times> call list \<Rightarrow> 'a \<times> ('s \<times> call list)" where
  "traced_call c f st = (case f (fst st) of (r, s') \<Rightarrow> (r, (s', snd st @ [c])))"

definition traced :: "'s TransactionRepository \<Rightarrow> ('s \<times> call list) TransactionRepository" where
  "traced repo =
     \<lparr>repo_add = (\<lambda>tx. traced_call (Add tx) (repo_add repo tx)),
      repo_get = (\<lambda>tid. traced_call (Get tid) (repo_get repo tid)),
      repo_list_by_user = (\<lambda>uid. traced_call (ListByUser uid) (repo_list_by_user repo uid)),
      repo_list_by_user_and_categories =
        (\<lambda>uid cids. traced_call (ListByUserAndCategories uid cids)
                       (repo_list_by_user_and_categories repo uid cids)),
      repo_list_by_user_and_period =
        (\<lambda>uid a b. traced_call (ListByUserAndPeriod uid a b)
                      (repo_list_by_user_and_period repo uid a b))\<rparr>"

section \<open>The service (app/application/services/transaction\_service.py)\<close>

definition normalize_datetime :: "datetime \<Rightarrow> datetime" where
  "normalize_datetime v = (if tzinfo v = None then v\<lparr>tzinfo := UTC\<rparr> else v)"

definition record_transaction ::
  "'s TransactionRepository \<Rightarrow> string \<Rightarrow> int \<Rightarrow> string \<Rightarrow> string \<Rightarrow> rat \<Rightarrow> string \<Rightarrow>
   datetime \<Rightarrow> string option \<Rightarrow> string option \<Rightarrow> string option \<Rightarrow>
   's \<Rightarrow> (error + Transaction) \<times> 's" where
  "record_transaction repo uuid now uid ty_str a c occ cat acc descr s =
     (case TransactionType_of ty_str of
        Inl e \<Rightarrow>
          (Inl (DomainValidationError (''Unsupported transaction type: '' @ ty_str)), s)
      | Inr ttype \<Rightarrow>
          let occ' = (if tzinfo occ = None then occ\<lparr>tzinfo := UTC\<rparr> else occ) in
          (case Money_new a c of
             Inl e \<Rightarrow> (Inl e, s)
           | Inr m \<Rightarrow>
               (case Transaction_create uuid now uid ttype m occ' cat acc descr of
                  Inl e \<Rightarrow> (Inl e, s)
                | Inr tx \<Rightarrow>
                    (case repo_add repo tx s of
                       (Inl e, s') \<Rightarrow> (Inl e, s')
                     | (Inr _, s') \<Rightarrow> (Inr tx, s')))))"

definition get_transaction ::
  "'s TransactionRepository \<Rightarrow> string \<Rightarrow> string \<Rightarrow> 's \<Rightarrow> (error + Transaction) \<times> 's" where
  "get_transaction repo uid tid s =
     (case repo_get repo tid s of
        (Inl e, s') \<Rightarrow> (Inl e, s')
      | (Inr None, s') \<Rightarrow> (Inl (NotFoundError ''Transaction not found''), s')
      | (Inr (Some tx), s') \<Rightarrow>
          if user_id tx \<noteq> uid then (Inl (NotFoundError ''Transaction not found''), s')
          else (Inr tx, s'))"

definition list_transactions ::
  "'s TransactionRepository \<Rightarrow> string \<Rightarrow> 's \<Rightarrow> (error + Transaction list) \<times> 's" where
  "list_transactions repo uid s = repo_list_by_user repo uid s"

text \<open>The \<open>for tx in transactions\<close> loop of \<open>get_transactions_by_categories\<close>.\<close>

fun by_categories_loop ::
  "Transaction list \<Rightarrow> rat \<Rightarrow> (string, rat) dict \<Rightarrow> rat \<times> (string, rat) dict" where
  "by_categories_loop [] total_expense expense_by_category =
     (total_expense, expense_by_category)"
| "by_categories_loop (tx # txs) total_expense expense_by_category =
     (if type_tx tx = expense then
        by_categories_loop txs (total_expense + amount (money tx))
          (case category_id tx of
             None \<Rightarrow> expense_by_category
           | Some cid \<Rightarrow>
               dict_set expense_by_category cid
                 (dict_get expense_by_category cid 0 + amount (money tx)))
      else by_categories_loop txs total_expense expense_by_category)"

definition get_transactions_by_categories ::
  "'s TransactionRepository \<Rightarrow> string \<Rightarrow> string list \<Rightarrow> 's \<Rightarrow>
   (error + Transaction list \<times> rat \<times> (string, rat) dict) \<times> 's" where
  "get_transactions_by_categories repo uid category_ids s =
     (let unique_category_ids = dict_keys (dict_fromkeys category_ids ()) in
      if unique_category_ids = []
        then (Inl (DomainValidationError ''category_ids must not be empty''), s)
      else
        (case repo_list_by_user_and_categories repo uid unique_category_ids s of
           (Inl e, s') \<Rightarrow> (Inl e, s')
         | (Inr transactions, s') \<Rightarrow>
             (case by_categories_loop transactions 0 (dict_fromkeys unique_category_ids 0) of
                (total_expense, expense_by_category) \<Rightarrow>
                  (Inr (transactions, total_expense, expense_by_category), s'))))"

text \<open>The loop of \<open>get_transactions_for_period\<close>; its keys include \<open>None\<close>.\<close>

fun for_period_loop ::
  "Transaction list \<Rightarrow> rat \<Rightarrow> (string option, rat) dict \<Rightarrow>
   rat \<times> (string option, rat) dict" where
  "for_period_loop [] total_expense expense_by_category =
     (total_expense, expense_by_category)"
| "for_period_loop (tx # txs) total_expense expense_by_category =
     (if type_tx tx = expense then
        for_period_loop txs (total_expense + amount (money tx))
          (dict_set expense_by_category (category_id tx)
             (dict_get expense_by_category (category_id tx) 0 + amount (money tx)))
      else for_period_loop txs total_expense expense_by_category)"

definition get_transactions_for_period ::
  "'s TransactionRepository \<Rightarrow> string \<Rightarrow> datetime \<Rightarrow> datetime \<Rightarrow> 's \<Rightarrow>
   (error + Transaction list \<times> rat \<times> (string option, rat) dict) \<times> 's" where
  "get_transactions_for_period repo uid start_at end_at s =
     (let start_at' = normalize_datetime start_at;
          end_at' = normalize_datetime end_at in
      case datetime_gt start_at' end_at' of
        Inl e \<Rightarrow> (Inl e, s)
      | Inr True \<Rightarrow>
          (Inl (DomainValidationError ''start_at must be before or equal to end_at''), s)
      | Inr False \<Rightarrow>
          (case repo_list_by_user_and_period repo uid start_at' end_at' s of
             (Inl e, s') \<Rightarrow> (Inl e, s')
           | (Inr transactions, s') \<Rightarrow>
               (case for_period_loop transactions 0 [] of
                  (total_expense, expense_by_category) \<Rightarrow>
                    (Inr (transactions, total_expense, expense_by_category), s'))))"

section \<open>The SQL repository (app/infrastructure/repositories)\<close>

text \<open>
  The table \<open>transactions\<close> is the list of its rows in insertion order. Three
  properties of the declared columns are part of the model.
  \<^item> \<open>id\<close> is the primary key: committing a row whose id is already in the table raises.
  \<^item> \<open>amount\<close> is \<open>Numeric(12, 2)\<close>, a fixed-point column of scale 2: it holds the bound
    value rounded to two decimal places (\<open>numeric_12_2\<close>). Overflow of the precision and
    the length limits of the \<open>String(n)\<close> columns are not modelled.
  \<^item> \<open>occurred_at\<close> and \<open>created_at\<close> are \<open>DateTime(timezone=True)\<close>. What such a column
    hands back for a bound value depends on the database behind the session factory
    (whether the zone is kept, converted or dropped), so it is the parameter
    \<open>datetime_column\<close> of the repository. Timestamps are ordered by \<open>utc_instant\<close>.
\<close>

record TransactionORM =
  row_id :: string
  row_user_id :: string
  row_type :: string
  row_amount :: rat
  row_currency :: string
  row_occurred_at :: datetime
  row_created_at :: datetime
  row_category_id :: "string option"
  row_account_id :: "string option"
  row_description :: "string option"

definition numeric_12_2 :: "rat \<Rightarrow> rat" where
  "numeric_12_2 a = of_int (round (a * 100)) / 100"

definition utc_instant :: "datetime \<Rightarrow> int" where
  "utc_instant d = wall d - (case tzinfo d of None \<Rightarrow> 0 | Some off \<Rightarrow> off)"

text \<open>The row built by \<open>add\<close>, as the table holds it.\<close>

definition to_row :: "(datetime \<Rightarrow> datetime) \<Rightarrow> Transaction \<Rightarrow> TransactionORM" where
  "to_row datetime_column tx =
     \<lparr>row_id = id_tx tx,
      row_user_id = user_id tx,
      row_type = TransactionType_value (type_tx tx),
      row_amount = numeric_12_2 (amount (money tx)),
      row_currency = currency (money tx),
      row_occurred_at = datetime_column (occurred_at tx),
      row_created_at = datetime_column (created_at tx),
      row_category_id = category_id tx,
      row_account_id = account_id tx,
      row_description = description tx\<rparr>"

text \<open>\<open>_to_domain\<close>: both constructors it calls validate again and may raise.\<close>

definition to_domain :: "TransactionORM \<Rightarrow> error + Transaction" where
  "to_domain row =
     (case TransactionType_of (row_type row) of
        Inl e \<Rightarrow> Inl e
      | Inr ty \<Rightarrow>
          (case Money_new (row_amount row) (row_currency row) of
             Inl e \<Rightarrow> Inl e
           | Inr m \<Rightarrow>
               Inr \<lparr>id_tx = row_id row, user_id = row_user_id row, type_tx = ty, money = m,
                    occurred_at = row_occurred_at row, created_at = row_created_at row,
                    category_id = row_category_id row, account_id = row_account_id row,
                    description = row_description row\<rparr>))"

text \<open>\<open>[self._to_domain(row) for row in rows]\<close>: the first row that raises ends it.\<close>

fun to_domain_all :: "TransactionORM list \<Rightarrow> error + Transaction list" where
  "to_domain_all [] = Inr []"
| "to_domain_all (row # rows) =
     (case to_domain row of
        Inl e \<Rightarrow> Inl e
      | Inr tx \<Rightarrow>
          (case to_domain_all rows of
             Inl e \<Rightarrow> Inl e
           | Inr txs \<Rightarrow> Inr (tx # txs)))"

definition sql_add ::
  "(datetime \<Rightarrow> datetime) \<Rightarrow> Transaction \<Rightarrow> TransactionORM list \<Rightarrow>
   (error + unit) \<times> TransactionORM list" where
  "sql_add datetime_column tx table =
     (let row = to_row datetime_column tx in
      if list_ex (\<lambda>r. row_id r = row_id row) table
        then (Inl (IntegrityError ''UNIQUE constraint failed: transactions.id''), table)
      else (Inr (), table @ [row]))"

definition sql_get ::
  "string \<Rightarrow> TransactionORM list \<Rightarrow> (error + Transaction option) \<times> TransactionORM list" where
  "sql_get tid table =
     (case find (\<lambda>r. row_id r = tid) table of
        None \<Rightarrow> (Inr None, table)
      | Some row \<Rightarrow>
          (case to_domain row of
             Inl e \<Rightarrow> (Inl e, table)
           | Inr tx \<Rightarrow> (Inr (Some tx), table)))"

text \<open>\<open>order_by(col.desc())\<close>: descending by instant, rows of equal instant in table order.\<close>

definition order_by_desc ::
  "(TransactionORM \<Rightarrow> datetime) \<Rightarrow> TransactionORM list \<Rightarrow> TransactionORM list" where
  "order_by_desc col rows = sort_key (\<lambda>r. - utc_instant (col r)) rows"

definition sql_list_by_user ::
  "string \<Rightarrow> TransactionORM list \<Rightarrow> (error + Transaction list) \<times> TransactionORM list" where
  "sql_list_by_user uid table =
     (to_domain_all (order_by_desc row_created_at
        (filter (\<lambda>r. row_user_id r = uid) table)), table)"

definition sql_list_by_user_and_categories ::
  "string \<Rightarrow> string list \<Rightarrow> TransactionORM list \<Rightarrow>
   (error + Transaction list) \<times> TransactionORM list" where
  "sql_list_by_user_and_categories uid cids table =
     (if cids = [] then (Inr [], table)
      else
        (to_domain_all (order_by_desc row_created_at
           (filter (\<lambda>r. case row_category_id r of None \<Rightarrow> False | Some c \<Rightarrow> c \<in> set cids)
              (filter (\<lambda>r. row_user_id r = uid) table))), table))"

definition sql_list_by_user_and_period ::
  "(datetime \<Rightarrow> datetime) \<Rightarrow> string \<Rightarrow> datetime \<Rightarrow> datetime \<Rightarrow> TransactionORM list \<Rightarrow>
   (error + Transaction list) \<times> TransactionORM list" where
  "sql_list_by_user_and_period datetime_column uid start_at end_at table =
     (to_domain_all (order_by_desc row_occurred_at
        (filter (\<lambda>r. utc_instant (row_occurred_at r) \<le> utc_instant (datetime_column end_at))
           (filter (\<lambda>r. utc_instant (row_occurred_at r) \<ge> utc_instant (datetime_column start_at))
              (filter (\<lambda>r. row_user_id r = uid) table)))), table)"

definition SQLAlchemyTransactionRepository ::
  "(datetime \<Rightarrow> datetime) \<Rightarrow> (TransactionORM list) TransactionRepository" where
  "SQLAlchemyTransactionRepository datetime_column =
     \<lparr>repo_add = sql_add datetime_column,
      repo_get = sql_get,
      repo_list_by_user = sql_list_by_user,
      repo_list_by_user_and_categories = sql_list_by_user_and_categories,
      repo_list_by_user_and_period = sql_list_by_user_and_period datetime_column\<rparr>"

section \<open>Specification functions\<close>

text \<open>
  Deduplication preserving first-seen order, as the specification words it: the first
  element stays, its later copies go.
\<close>

fun first_seen :: "'a list \<Rightarrow> 'a list" where
  "first_seen [] = []"
| "first_seen (x # xs) = x # first_seen (filter (\<lambda>y. y \<noteq> x) xs)"

text \<open>The sum of \<open>money.amount\<close> over the transactions of a list that satisfy \<open>P\<close>.\<close>

definition sum_amount :: "(Transaction \<Rightarrow> bool) \<Rightarrow> Transaction list \<Rightarrow> rat" where
  "sum_amount P txs = sum_list (map (\<lambda>tx. amount (money tx)) (filter P txs))"

definition is_expense :: "Transaction \<Rightarrow> bool" where
  "is_expense tx = (type_tx tx = expense)"

section \<open>Example values\<close>

text \<open>
  A small table used to run the operations on concrete inputs: three transactions of
  user \<open>u1\<close> in the categories \<open>food\<close> and \<open>transport\<close>, one of user \<open>u2\<close>, and one
  expense of \<open>u1\<close> without category. The timestamp column keeps what it is given.
\<close>

definition example_tx ::
  "string \<Rightarrow> string \<Rightarrow> TransactionType \<Rightarrow> rat \<Rightarrow> string option \<Rightarrow> int \<Rightarrow> Transaction" where
  "example_tx tid uid ty a cat t =
     \<lparr>id_tx = tid, user_id = uid, type_tx = ty, money = \<lparr>amount = a, currency = ''RUB''\<rparr>,
      occurred_at = \<lparr>wall = t, tzinfo = UTC\<rparr>, created_at = \<lparr>wall = t, tzinfo = UTC\<rparr>,
      category_id = cat, account_id = None, description = None\<rparr>"

definition example_table :: "TransactionORM list" where
  "example_table = map (to_row (\<lambda>d. d))
     [example_tx ''t1'' ''u1'' expense 100 (Some ''food'') 1,
      example_tx ''t2'' ''u1'' income 20 (Some ''food'') 2,
      example_tx ''t3'' ''u1'' expense 40 (Some ''transport'') 3,
      example_tx ''t4'' ''u2'' expense 999 (Some ''food'') 4,
      example_tx ''t5'' ''u1'' expense 7 None 5]"



definition example_repo :: "(TransactionORM list) TransactionRepository" where
  "example_repo = SQLAlchemyTransactionRepository (\<lambda>d. d)"

section \<open>Properties of dictionaries and of deduplication\<close>




lemma map_of_dict_set: "map_of (dict_set d k v) = (map_of d)(k \<mapsto> v)"
  by (induction d) auto

lemma dict_get_map_of:
  "dict_get d k dflt = (case map_of d k of None \<Rightarrow> dflt | Some v \<Rightarrow> v)"
  by (induction d) auto





lemma first_seen_Nil_iff: "first_seen xs = [] \<longleftrightarrow> xs = []"
  by (cases xs) auto

lemma fromkeys_fold:
  "foldl (\<lambda>d k. dict_set d k v0) (map (\<lambda>k. (k, v0)) ks) xs =
   map (\<lambda>k. (k, v0)) (ks @ first_seen (filter (\<lambda>x. x \<notin> set ks) xs))"
proof (induction xs arbitrary: ks)
  case Nil
  then show ?case by simp
next
  case (Cons x xs)
  show ?case
  proof (cases "x \<in> set ks")
    case True
    then have "dict_set (map (\<lambda>k. (k, v0)) ks) x v0 = map (\<lambda>k. (k, v0)) ks"
      by (induction ks) auto
    with True Cons show ?thesis by simp
  next
    case False
    then have s: "dict_set (map (\<lambda>k. (k, v0)) ks) x v0 = map (\<lambda>k. (k, v0)) (ks @ [x])"
      by (induction ks) auto
    have f: "filter (\<lambda>y. y \<notin> set (ks @ [x])) xs = filter (\<lambda>y. y \<noteq> x) (filter (\<lambda>y. y \<notin> set ks) xs)"
      by (induction xs) auto
    from False show ?thesis
      using Cons [of "ks @ [x]"] by (simp add: s f conj_commute del: map_append)
  qed
qed

lemma dict_fromkeys_eq: "dict_fromkeys xs v0 = map (\<lambda>k. (k, v0)) (first_seen xs)"
  using fromkeys_fold [of v0 "[]" xs] by (simp add: dict_fromkeys_def)

lemma dict_keys_fromkeys: "dict_keys (dict_fromkeys xs v0) = first_seen xs"
  by (simp add: dict_fromkeys_eq dict_keys_def comp_def)

section \<open>Properties of the aggregation loops\<close>





lemma for_period_loop_total:
  "fst (for_period_loop txs t d) = t + sum_amount is_expense txs"
  by (induction txs arbitrary: t d) (auto simp: sum_amount_def is_expense_def)







lemma datetime_gt_normalized:
  "datetime_gt (normalize_datetime a) (normalize_datetime b) = Inr (utc_instant a > utc_instant b)"
  by (auto simp: datetime_gt_def normalize_datetime_def utc_instant_def UTC_def split: option.splits)


lemma traced_selectors:
  "repo_add (traced repo) tx = traced_call (Add tx) (repo_add repo tx)"
  "repo_get (traced repo) tid = traced_call (Get tid) (repo_get repo tid)"
  "repo_list_by_user (traced repo) uid = traced_call (ListByUser uid) (repo_list_by_user repo uid)"
  "repo_list_by_user_and_categories (traced repo) uid cids =
     traced_call (ListByUserAndCategories uid cids) (repo_list_by_user_and_categories repo uid cids)"
  "repo_list_by_user_and_period (traced repo) uid a b =
     traced_call (ListByUserAndPeriod uid a b) (repo_list_by_user_and_period repo uid a b)"
  by (simp_all add: traced_def)

lemma for_period_loop_pair:
  "for_period_loop txs 0 [] = (sum_amount is_expense txs, snd (for_period_loop txs 0 []))"
  using for_period_loop_total [of txs 0 "[]"] by (simp add: prod_eq_iff)


section \<open>Properties of the SQL repository\<close>







lemma SQL_selectors:
  "repo_add (SQLAlchemyTransactionRepository dc) = sql_add dc"
  "repo_get (SQLAlchemyTransactionRepository dc) = sql_get"
  "repo_list_by_user (SQLAlchemyTransactionRepository dc) = sql_list_by_user"
  "repo_list_by_user_and_categories (SQLAlchemyTransactionRepository dc) =
     sql_list_by_user_and_categories"
  "repo_list_by_user_and_period (SQLAlchemyTransactionRepository dc) =
     sql_list_by_user_and_period dc"
  by (simp_all add: SQLAlchemyTransactionRepository_def)












text \<open>
  An amount below half a hundredth is a valid Money, is stored as \<open>0.00\<close>, and the row then
  fails the validation of Money when it is read: \<open>add\<close> succeeds and \<open>get\<close> raises.
\<close>

lemma add_then_get_raises_on_rounded_zero:
  "Money_new (1 / 1000) ''RUB'' = Inr \<lparr>amount = 1 / 1000, currency = ''RUB''\<rparr> \<and>
   fst (sql_add (\<lambda>d. d) (example_tx ''t9'' ''u1'' expense (1 / 1000) None 9) []) = Inr () \<and>
   fst (sql_get ''t9'' (snd (sql_add (\<lambda>d. d) (example_tx ''t9'' ''u1'' expense (1 / 1000) None 9) []))) =
     Inl (DomainValidationError ''Amount must be greater than 0'')"
  by code_simp

section \<open>Aggregation by categories\<close>





section \<open>Round trip through the repository\<close>




section \<open>Ownership check of get\_transaction\<close>

text \<open>
  Claim C4. \<open>get_transaction\<close> fails with \<open>NotFoundError\<close> when the store has no
  transaction of that id and when it has one whose \<open>user_id\<close> is not the requesting
  user; both failures are the same value, with the same message. When the id exists and
  the user matches, the transaction is returned.
\<close>

theorem get_transaction_ownership:
  "(repo_get repo tid s = (Inr None, s') \<longrightarrow>
      get_transaction repo uid tid s = (Inl (NotFoundError ''Transaction not found''), s')) \<and>
   (repo_get repo tid s = (Inr (Some tx), s') \<and> user_id tx \<noteq> uid \<longrightarrow>
      get_transaction repo uid tid s = (Inl (NotFoundError ''Transaction not found''), s')) \<and>
   (repo_get repo tid s = (Inr (Some tx), s') \<and> user_id tx = uid \<longrightarrow>
      get_transaction repo uid tid s = (Inr tx, s'))"
  by (simp add: get_transaction_def)

theorem get_transaction_ownership_witness:
  "repo_get example_repo ''t0'' example_table = (Inr None, example_table) \<and>
   get_transaction example_repo ''u1'' ''t0'' example_table =
     (Inl (NotFoundError ''Transaction not found''), example_table) \<and>
   repo_get example_repo ''t4'' example_table =
     (Inr (Some (example_tx ''t4'' ''u2'' expense 999 (Some ''food'') 4)), example_table) \<and>
   user_id (example_tx ''t4'' ''u2'' expense 999 (Some ''food'') 4) \<noteq> ''u1'' \<and>
   get_transaction example_repo ''u1'' ''t4'' example_table =
     (Inl (NotFoundError ''Transaction not found''), example_table) \<and>
   repo_get example_repo ''t1'' example_table =
     (Inr (Some (example_tx ''t1'' ''u1'' expense 100 (Some ''food'') 1)), example_table) \<and>
   user_id (example_tx ''t1'' ''u1'' expense 100 (Some ''food'') 1) = ''u1'' \<and>
   get_transaction example_repo ''u1'' ''t1'' example_table =
     (Inr (example_tx ''t1'' ''u1'' expense 100 (Some ''food'') 1), example_table)"
proof -
  have absent: "repo_get example_repo ''t0'' example_table = (Inr None, example_table)"
    by code_simp
  have other: "repo_get example_repo ''t4'' example_table =
      (Inr (Some (example_tx ''t4'' ''u2'' expense 999 (Some ''food'') 4)), example_table)"
    by code_simp
  have own: "repo_get example_repo ''t1'' example_table =
      (Inr (Some (example_tx ''t1'' ''u1'' expense 100 (Some ''food'') 1)), example_table)"
    by code_simp
  have u2: "user_id (example_tx ''t4'' ''u2'' expense 999 (Some ''food'') 4) \<noteq> ''u1''"
    by (simp add: example_tx_def)
  have u1: "user_id (example_tx ''t1'' ''u1'' expense 100 (Some ''food'') 1) = ''u1''"
    by (simp add: example_tx_def)
  from get_transaction_ownership
         [where repo = example_repo and tid = "''t0''" and s = example_table
            and s' = example_table and uid = "''u1''"]
       get_transaction_ownership
         [where repo = example_repo and tid = "''t4''" and s = example_table
            and s' = example_table and uid = "''u1''"
            and tx = "example_tx ''t4'' ''u2'' expense 999 (Some ''food'') 4"]
       get_transaction_ownership
         [where repo = example_repo and tid = "''t1''" and s = example_table
            and s' = example_table and uid = "''u1''"
            and tx = "example_tx ''t1'' ''u1'' expense 100 (Some ''food'') 1"]
       absent other own u1 u2
  show ?thesis by simp
qed

section \<open>Aggregation by period\<close>



text \<open>
  Claim C6. With naive inputs read as UTC, \<open>get_transactions_for_period\<close> fails with a
  validation error, without calling the store, when \<open>start_at\<close> is later than \<open>end_at\<close>.
  When it is not later, in particular when both are the same instant, the period check
  passes: the result is the store's result, with the totals when the store returns a
  list (which may be empty).
\<close>

theorem for_period_range_check:
  "(utc_instant start_at > utc_instant end_at \<longrightarrow>
      get_transactions_for_period (traced repo) uid start_at end_at (s, calls) =
        (Inl (DomainValidationError ''start_at must be before or equal to end_at''), (s, calls))) \<and>
   (utc_instant start_at \<le> utc_instant end_at \<longrightarrow>
      get_transactions_for_period repo uid start_at end_at s =
        (case repo_list_by_user_and_period repo uid
                (normalize_datetime start_at) (normalize_datetime end_at) s of
           (Inl e, s') \<Rightarrow> (Inl e, s')
         | (Inr txs, s') \<Rightarrow>
             (Inr (txs, sum_amount is_expense txs, snd (for_period_loop txs 0 [])), s')))"
  using for_period_loop_pair
  by (auto simp: get_transactions_for_period_def datetime_gt_normalized Let_def
        split: prod.splits sum.splits)

theorem for_period_range_check_witness:
  "utc_instant \<lparr>wall = 5, tzinfo = None\<rparr> > utc_instant \<lparr>wall = 3, tzinfo = UTC\<rparr> \<and>
   get_transactions_for_period (traced example_repo) ''u1'' \<lparr>wall = 5, tzinfo = None\<rparr>
       \<lparr>wall = 3, tzinfo = UTC\<rparr> (example_table, []) =
     (Inl (DomainValidationError ''start_at must be before or equal to end_at''),
      (example_table, [])) \<and>
   utc_instant \<lparr>wall = 3, tzinfo = None\<rparr> \<le> utc_instant \<lparr>wall = 3, tzinfo = UTC\<rparr> \<and>
   get_transactions_for_period example_repo ''u1'' \<lparr>wall = 3, tzinfo = None\<rparr>
       \<lparr>wall = 3, tzinfo = UTC\<rparr> example_table =
     (Inr ([example_tx ''t3'' ''u1'' expense 40 (Some ''transport'') 3], 40,
           [(Some ''transport'', 40)]), example_table)"
proof -
  have gt: "utc_instant \<lparr>wall = 5, tzinfo = None\<rparr> > utc_instant \<lparr>wall = 3, tzinfo = UTC\<rparr>"
    by (simp add: utc_instant_def UTC_def)
  have eq: "utc_instant \<lparr>wall = 3, tzinfo = None\<rparr> \<le> utc_instant \<lparr>wall = 3, tzinfo = UTC\<rparr>"
    by (simp add: utc_instant_def UTC_def)
  have fetch: "repo_list_by_user_and_period example_repo ''u1''
       (normalize_datetime \<lparr>wall = 3, tzinfo = None\<rparr>)
       (normalize_datetime \<lparr>wall = 3, tzinfo = UTC\<rparr>) example_table =
     (Inr [example_tx ''t3'' ''u1'' expense 40 (Some ''transport'') 3], example_table)"
    by code_simp
  have loop: "snd (for_period_loop [example_tx ''t3'' ''u1'' expense 40 (Some ''transport'') 3] 0 []) =
      [(Some ''transport'', 40)]"
    by code_simp
  have tot: "sum_amount is_expense [example_tx ''t3'' ''u1'' expense 40 (Some ''transport'') 3] = 40"
    by code_simp
  from for_period_range_check
         [where start_at = "\<lparr>wall = 5, tzinfo = None\<rparr>" and end_at = "\<lparr>wall = 3, tzinfo = UTC\<rparr>"
            and repo = example_repo and uid = "''u1''" and s = example_table and calls = "[]"]
       gt
  have rejected: "get_transactions_for_period (traced example_repo) ''u1''
       \<lparr>wall = 5, tzinfo = None\<rparr> \<lparr>wall = 3, tzinfo = UTC\<rparr> (example_table, []) =
     (Inl (DomainValidationError ''start_at must be before or equal to end_at''),
      (example_table, []))"
    by blast
  from for_period_range_check
         [where start_at = "\<lparr>wall = 3, tzinfo = None\<rparr>" and end_at = "\<lparr>wall = 3, tzinfo = UTC\<rparr>"
            and repo = example_repo and uid = "''u1''" and s = example_table]
       eq
  have "get_transactions_for_period example_repo ''u1'' \<lparr>wall = 3, tzinfo = None\<rparr>
       \<lparr>wall = 3, tzinfo = UTC\<rparr> example_table =
     (case repo_list_by_user_and_period example_repo ''u1''
             (normalize_datetime \<lparr>wall = 3, tzinfo = None\<rparr>)
             (normalize_datetime \<lparr>wall = 3, tzinfo = UTC\<rparr>) example_table of
        (Inl e, s') \<Rightarrow> (Inl e, s')
      | (Inr txs, s') \<Rightarrow>
          (Inr (txs, sum_amount is_expense txs, snd (for_period_loop txs 0 [])), s'))"
    by blast
  then have accepted: "get_transactions_for_period example_repo ''u1'' \<lparr>wall = 3, tzinfo = None\<rparr>
       \<lparr>wall = 3, tzinfo = UTC\<rparr> example_table =
     (Inr ([example_tx ''t3'' ''u1'' expense 40 (Some ''transport'') 3], 40,
           [(Some ''transport'', 40)]), example_table)"
    by (simp only: fetch loop tot prod.case sum.case)
  from gt eq rejected accepted show ?thesis by blast
qed

section \<open>Validation of the requests\<close>

text \<open>
  Claim C7. \<open>get_transactions_by_categories\<close> fails with a validation error for every
  list whose deduplication is empty, which is the empty list only, and the store is not
  called: the state and the record of calls are as before.
\<close>

theorem by_categories_empty_rejected:
  "(first_seen cids = [] \<longleftrightarrow> cids = []) \<and>
   (first_seen cids = [] \<longrightarrow>
      get_transactions_by_categories (traced repo) uid cids (s, calls) =
        (Inl (DomainValidationError ''category_ids must not be empty''), (s, calls)))"
  by (simp add: first_seen_Nil_iff get_transactions_by_categories_def dict_keys_fromkeys)

theorem by_categories_empty_rejected_witness:
  "first_seen ([] :: string list) = [] \<and>
   get_transactions_by_categories (traced example_repo) ''u1'' [] (example_table, []) =
     (Inl (DomainValidationError ''category_ids must not be empty''), (example_table, []))"
  using by_categories_empty_rejected [of "[]" example_repo "''u1''" example_table "[]"]
  by simp

text \<open>
  Claim C8. For every type string other than \<open>expense\<close> and \<open>income\<close>,
  \<open>record_transaction\<close> fails with a validation error and the store is not called. For
  one of the two, a positive amount, a currency of length 3 and a non-empty user, when the
  store's \<open>add\<close> succeeds, it calls \<open>add\<close> once with the new transaction and returns it;
  its id is the generated one and its \<open>created_at\<close> is the clock reading in UTC.
\<close>

theorem record_transaction_type_check:
  assumes tx: "tx = \<lparr>id_tx = uuid, user_id = uid,
                      type_tx = (if ty_str = ''expense'' then expense else income),
                      money = \<lparr>amount = a, currency = c\<rparr>,
                      occurred_at = normalize_datetime occ,
                      created_at = \<lparr>wall = now, tzinfo = UTC\<rparr>,
                      category_id = cat, account_id = acc, description = descr\<rparr>"
  shows "(ty_str \<noteq> ''expense'' \<and> ty_str \<noteq> ''income'' \<longrightarrow>
            record_transaction (traced repo) uuid now uid ty_str a c occ cat acc descr (s, calls) =
              (Inl (DomainValidationError (''Unsupported transaction type: '' @ ty_str)),
               (s, calls))) \<and>
         ((ty_str = ''expense'' \<or> ty_str = ''income'') \<and> 0 < a \<and> length c = 3 \<and> uid \<noteq> [] \<and>
          repo_add repo tx s = (Inr (), s') \<longrightarrow>
            record_transaction (traced repo) uuid now uid ty_str a c occ cat acc descr (s, calls) =
              (Inr tx, (s', calls @ [Add tx])) \<and>
            id_tx tx = uuid \<and> created_at tx = \<lparr>wall = now, tzinfo = UTC\<rparr>)"
proof (intro conjI impI)
  assume "ty_str \<noteq> ''expense'' \<and> ty_str \<noteq> ''income''"
  then show "record_transaction (traced repo) uuid now uid ty_str a c occ cat acc descr (s, calls) =
      (Inl (DomainValidationError (''Unsupported transaction type: '' @ ty_str)), (s, calls))"
    by (simp add: record_transaction_def TransactionType_of_def)
next
  assume h: "(ty_str = ''expense'' \<or> ty_str = ''income'') \<and> 0 < a \<and> length c = 3 \<and> uid \<noteq> [] \<and>
      repo_add repo tx s = (Inr (), s')"
  then have ty: "TransactionType_of ty_str = Inr (if ty_str = ''expense'' then expense else income)"
    by (auto simp: TransactionType_of_def)
  from h have m: "Money_new a c = Inr \<lparr>amount = a, currency = c\<rparr>"
    by (auto simp: Money_new_def)
  have aware: "tzinfo (normalize_datetime occ) \<noteq> None"
    by (simp add: normalize_datetime_def UTC_def)
  from h aware have cr: "Transaction_create uuid now uid
      (if ty_str = ''expense'' then expense else income) \<lparr>amount = a, currency = c\<rparr>
      (normalize_datetime occ) cat acc descr = Inr tx"
    by (simp add: Transaction_create_def tx)
  have n: "(if tzinfo occ = None then occ\<lparr>tzinfo := UTC\<rparr> else occ) = normalize_datetime occ"
    by (simp add: normalize_datetime_def)
  from h have add: "repo_add (traced repo) tx (s, calls) = (Inr (), (s', calls @ [Add tx]))"
    by (simp add: traced_selectors traced_call_def)
  show "record_transaction (traced repo) uuid now uid ty_str a c occ cat acc descr (s, calls) =
      (Inr tx, (s', calls @ [Add tx]))"
    unfolding record_transaction_def ty n Let_def by (simp add: m cr add)
  show "id_tx tx = uuid" by (simp add: tx)
  show "created_at tx = \<lparr>wall = now, tzinfo = UTC\<rparr>" by (simp add: tx)
qed

theorem record_transaction_type_check_witness:
  "''transfer'' \<noteq> ''expense'' \<and> ''transfer'' \<noteq> ''income'' \<and>
   record_transaction (traced example_repo) ''t6'' 6 ''u1'' ''transfer'' (21 / 2) ''RUB''
       \<lparr>wall = 6, tzinfo = UTC\<rparr> (Some ''food'') None None (example_table, []) =
     (Inl (DomainValidationError ''Unsupported transaction type: transfer''),
      (example_table, [])) \<and>
   repo_add example_repo (example_tx ''t6'' ''u1'' expense (21 / 2) (Some ''food'') 6)
       example_table =
     (Inr (), example_table @
        [to_row (\<lambda>d. d) (example_tx ''t6'' ''u1'' expense (21 / 2) (Some ''food'') 6)]) \<and>
   record_transaction (traced example_repo) ''t6'' 6 ''u1'' ''expense'' (21 / 2) ''RUB''
       \<lparr>wall = 6, tzinfo = UTC\<rparr> (Some ''food'') None None (example_table, []) =
     (Inr (example_tx ''t6'' ''u1'' expense (21 / 2) (Some ''food'') 6),
      (example_table @
         [to_row (\<lambda>d. d) (example_tx ''t6'' ''u1'' expense (21 / 2) (Some ''food'') 6)],
       [Add (example_tx ''t6'' ''u1'' expense (21 / 2) (Some ''food'') 6)]))"
proof -
  let ?tx = "example_tx ''t6'' ''u1'' expense (21 / 2) (Some ''food'') 6"
  have bad: "''transfer'' \<noteq> ''expense'' \<and> ''transfer'' \<noteq> ''income''"
    by simp
  have tx: "?tx = \<lparr>id_tx = ''t6'', user_id = ''u1'',
                  type_tx = (if ''expense'' = ''expense'' then expense else income),
                  money = \<lparr>amount = 21 / 2, currency = ''RUB''\<rparr>,
                  occurred_at = normalize_datetime \<lparr>wall = 6, tzinfo = UTC\<rparr>,
                  created_at = \<lparr>wall = 6, tzinfo = UTC\<rparr>,
                  category_id = Some ''food'', account_id = None, description = None\<rparr>"
    by (simp add: example_tx_def normalize_datetime_def UTC_def)
  have add: "repo_add example_repo ?tx example_table =
      (Inr (), example_table @ [to_row (\<lambda>d. d) ?tx])"
    by code_simp
  from record_transaction_type_check
         [OF refl, where ty_str = "''transfer''" and repo = example_repo and uuid = "''t6''"
            and now = 6 and uid = "''u1''" and a = "21 / 2" and c = "''RUB''"
            and occ = "\<lparr>wall = 6, tzinfo = UTC\<rparr>" and cat = "Some ''food''" and acc = None
            and descr = None and s = example_table and calls = "[]"]
       bad
  have rejected: "record_transaction (traced example_repo) ''t6'' 6 ''u1'' ''transfer'' (21 / 2)
       ''RUB'' \<lparr>wall = 6, tzinfo = UTC\<rparr> (Some ''food'') None None (example_table, []) =
     (Inl (DomainValidationError ''Unsupported transaction type: transfer''),
      (example_table, []))"
    by simp
  from record_transaction_type_check
         [OF tx, where repo = example_repo and s = example_table
            and s' = "example_table @ [to_row (\<lambda>d. d) ?tx]" and calls = "[]"]
       add
  have accepted: "record_transaction (traced example_repo) ''t6'' 6 ''u1'' ''expense'' (21 / 2)
       ''RUB'' \<lparr>wall = 6, tzinfo = UTC\<rparr> (Some ''food'') None None (example_table, []) =
     (Inr ?tx, (example_table @ [to_row (\<lambda>d. d) ?tx], [Add ?tx]))"
    by simp
  show ?thesis using bad add rejected accepted by simp
qed

text \<open>
  Claim C10. With a naive \<open>occurred_at\<close>, \<open>record_transaction\<close> never fails with the
  error of \<open>Transaction.create\<close> for naive timestamps (the store not raising it itself):
  the service sets UTC first, and a returned transaction has the input with \<open>tzinfo\<close> UTC
  as \<open>occurred_at\<close>. \<open>Transaction.create\<close> on its own rejects the same input.
\<close>

theorem record_transaction_naive_occurred_at:
  assumes naive: "tzinfo occ = None"
    and repo: "\<forall>tx s. fst (repo_add repo tx s) \<noteq>
                 Inl (DomainValidationError ''occurred_at must be timezone-aware (e.g. UTC)'')"
  shows "fst (record_transaction repo uuid now uid ty_str a c occ cat acc descr s) \<noteq>
           Inl (DomainValidationError ''occurred_at must be timezone-aware (e.g. UTC)'') \<and>
         (\<forall>tx. fst (record_transaction repo uuid now uid ty_str a c occ cat acc descr s) = Inr tx \<longrightarrow>
            occurred_at tx = occ\<lparr>tzinfo := UTC\<rparr> \<and> tzinfo (occurred_at tx) \<noteq> None) \<and>
         (uid \<noteq> [] \<longrightarrow>
            Transaction_create uuid now uid ty m occ cat acc descr =
              Inl (DomainValidationError ''occurred_at must be timezone-aware (e.g. UTC)''))"
proof -
  let ?naive_error = "DomainValidationError ''occurred_at must be timezone-aware (e.g. UTC)''"
  let ?r = "record_transaction repo uuid now uid ty_str a c occ cat acc descr s"
  have never: "fst ?r \<noteq> Inl ?naive_error"
  proof
    assume "fst ?r = Inl ?naive_error"
    then have "\<exists>tx. fst (repo_add repo tx s) = Inl ?naive_error"
      using naive
      by (auto simp: record_transaction_def Let_def Money_new_def Transaction_create_def UTC_def
            split: sum.splits if_splits prod.splits)
         (metis fst_conv)
    with repo show False by blast
  qed
  have aware: "occurred_at tx = occ\<lparr>tzinfo := UTC\<rparr> \<and> tzinfo (occurred_at tx) \<noteq> None"
    if "fst ?r = Inr tx" for tx
    using that naive
    by (auto simp: record_transaction_def Let_def Transaction_create_def UTC_def
          split: sum.splits if_splits prod.splits)
  have domain: "Transaction_create uuid now uid ty m occ cat acc descr = Inl ?naive_error"
    if "uid \<noteq> []"
    using that naive by (simp add: Transaction_create_def)
  from never aware domain show ?thesis by blast
qed

theorem record_transaction_naive_occurred_at_witness:
  "tzinfo \<lparr>wall = 6, tzinfo = None\<rparr> = None \<and>
   (\<forall>tx s. fst (repo_add example_repo tx s) \<noteq>
      Inl (DomainValidationError ''occurred_at must be timezone-aware (e.g. UTC)'')) \<and>
   fst (record_transaction example_repo ''t6'' 6 ''u1'' ''expense'' (21 / 2) ''RUB''
          \<lparr>wall = 6, tzinfo = None\<rparr> (Some ''food'') None None example_table) =
     Inr (example_tx ''t6'' ''u1'' expense (21 / 2) (Some ''food'') 6) \<and>
   occurred_at (example_tx ''t6'' ''u1'' expense (21 / 2) (Some ''food'') 6) =
     \<lparr>wall = 6, tzinfo = None\<rparr>\<lparr>tzinfo := UTC\<rparr> \<and>
   Transaction_create ''t6'' 6 ''u1'' expense \<lparr>amount = 21 / 2, currency = ''RUB''\<rparr>
       \<lparr>wall = 6, tzinfo = None\<rparr> (Some ''food'') None None =
     Inl (DomainValidationError ''occurred_at must be timezone-aware (e.g. UTC)'')"
proof -
  have naive: "tzinfo \<lparr>wall = 6, tzinfo = None\<rparr> = None"
    by simp
  have repo: "\<forall>tx s. fst (repo_add example_repo tx s) \<noteq>
      Inl (DomainValidationError ''occurred_at must be timezone-aware (e.g. UTC)'')"
    by (simp add: example_repo_def SQL_selectors sql_add_def Let_def)
  have call: "fst (record_transaction example_repo ''t6'' 6 ''u1'' ''expense'' (21 / 2) ''RUB''
          \<lparr>wall = 6, tzinfo = None\<rparr> (Some ''food'') None None example_table) =
     Inr (example_tx ''t6'' ''u1'' expense (21 / 2) (Some ''food'') 6)"
    by code_simp
  from record_transaction_naive_occurred_at
         [OF naive repo, where uuid = "''t6''" and now = 6 and uid = "''u1''"
            and ty_str = "''expense''" and a = "21 / 2" and c = "''RUB''"
            and cat = "Some ''food''" and acc = None and descr = None and s = example_table
            and ty = expense and m = "\<lparr>amount = 21 / 2, currency = ''RUB''\<rparr>"]
       naive repo call
  show ?thesis by simp
qed

section \<open>Validation of Money\<close>

text \<open>
  Claim C9. Constructing a Money fails with a validation error for every amount that is
  zero or negative and for every currency whose length is not 3, and succeeds for every
  positive amount with a currency of three characters. The construction reads and
  writes nothing but its two arguments, so a failure leaves no effect behind.
\<close>

theorem Money_new_validation:
  "(a \<le> 0 \<longrightarrow> Money_new a c = Inl (DomainValidationError ''Amount must be greater than 0'')) \<and>
   (length c \<noteq> 3 \<longrightarrow> (\<exists>msg. Money_new a c = Inl (DomainValidationError msg))) \<and>
   (0 < a \<and> length c = 3 \<longrightarrow> Money_new a c = Inr \<lparr>amount = a, currency = c\<rparr>)"
  by (auto simp: Money_new_def)

theorem Money_new_validation_witness:
  "(0::rat) \<le> 0 \<and> Money_new 0 ''RUB'' = Inl (DomainValidationError ''Amount must be greater than 0'') \<and>
   length ''RU'' \<noteq> 3 \<and> (\<exists>msg. Money_new 1 ''RU'' = Inl (DomainValidationError msg)) \<and>
   (0::rat) < 1 \<and> length ''RUB'' = 3 \<and> Money_new 1 ''RUB'' = Inr \<lparr>amount = 1, currency = ''RUB''\<rparr>"
  using Money_new_validation [of 0 "''RUB''"] Money_new_validation [of 1 "''RU''"]
    Money_new_validation [of 1 "''RUB''"]
  by simp

end
